theory Spec2Isabelle
  imports Main "HOL-Library.AList"
begin

section \<open>JavaScript values and React elements\<close>

text \<open>
  The values the site's JavaScript sources build: primitives, plain objects (their
  entries in insertion order), arrays, and React elements. An element
  \<open>Element t ps cs\<close> is what a JSX tag creates: the tag or component name, the
  attributes in source order, and the children. A JSX fragment is the element named
  \<open>Fragment\<close>.
\<close>

datatype js =
    Undefined
  | Null
  | Boolean bool
  | Number int
  | String string
  | Object "(string \<times> js) list"
  | Array "js list"
  | Element string "(string \<times> js) list" "js list"

text \<open>ECMAScript ToBoolean on the values above.\<close>

fun truthy :: "js \<Rightarrow> bool" where
  "truthy Undefined = False"
| "truthy Null = False"
| "truthy (Boolean b) = b"
| "truthy (Number n) = (n \<noteq> 0)"
| "truthy (String s) = (s \<noteq> [])"
| "truthy (Object ps) = True"
| "truthy (Array xs) = True"
| "truthy (Element t ps cs) = True"

text \<open>The operator \<open>a && b\<close>: the left operand when it is falsy, the right one otherwise.\<close>

definition js_and :: "js \<Rightarrow> js \<Rightarrow> js" where
  "js_and a b = (if truthy a then b else a)"

text \<open>Reading a property of an object: \<open>undefined\<close> when the key is absent.\<close>

definition get :: "(string \<times> js) list \<Rightarrow> string \<Rightarrow> js" where
  "get ps k = (case map_of ps k of None \<Rightarrow> Undefined | Some v \<Rightarrow> v)"

text \<open>
  Object spread \<open>{...base, ...ps}\<close>: each entry of \<open>ps\<close> is assigned in order; an
  existing key keeps its place and takes the new value, a new key goes to the end.
\<close>

definition spread :: "(string \<times> js) list \<Rightarrow> (string \<times> js) list \<Rightarrow> (string \<times> js) list" where
  "spread base ps = foldl (\<lambda>acc kv. AList.update (fst kv) (snd kv) acc) base ps"

text \<open>
  The props a component function receives from React: the element's attributes without
  the reserved \<open>key\<close> and \<open>ref\<close>.
\<close>

definition component_props :: "(string \<times> js) list \<Rightarrow> (string \<times> js) list" where
  "component_props attrs = filter (\<lambda>kv. fst kv \<noteq> ''key'' \<and> fst kv \<noteq> ''ref'') attrs"

text \<open>\<open>Array.prototype.map\<close> with the callback's two arguments, the item and its index.\<close>

definition array_map :: "('a \<Rightarrow> nat \<Rightarrow> 'b) \<Rightarrow> 'a list \<Rightarrow> 'b list" where
  "array_map f xs = map (\<lambda>(x, i). f x i) (zip xs [0..<length xs])"

text \<open>Decimal digits of a natural number, and ECMAScript ToString as template literals apply it.\<close>

fun dec :: "nat \<Rightarrow> string" where
  "dec n = (if n < 10 then [''0123456789'' ! n] else dec (n div 10) @ [''0123456789'' ! (n mod 10)])"

declare dec.simps [simp del]

fun join :: "string \<Rightarrow> string list \<Rightarrow> string" where
  "join sep [] = []"
| "join sep [x] = x"
| "join sep (x # y # ys) = x @ sep @ join sep (y # ys)"

fun ToString :: "js \<Rightarrow> string" where
  "ToString Undefined = ''undefined''"
| "ToString Null = ''null''"
| "ToString (Boolean b) = (if b then ''true'' else ''false'')"
| "ToString (Number n) = (if n < 0 then ''-'' @ dec (nat (- n)) else dec (nat n))"
| "ToString (String s) = s"
| "ToString (Object ps) = ''[object Object]''"
| "ToString (Array xs) =
     join '','' (map (\<lambda>x. if x = Undefined \<or> x = Null then [] else ToString x) xs)"
| "ToString (Element t ps cs) = ''[object Object]''"

text \<open>
  All elements with a given tag or component name in a tree of children, in document
  order. Arrays among the children are flattened, as React does; attributes are not
  searched.
\<close>

fun elems :: "string \<Rightarrow> js \<Rightarrow> js list" where
  "elems t (Element tag ps cs) =
     (if tag = t then [Element tag ps cs] else []) @ concat (map (elems t) cs)"
| "elems t (Array xs) = concat (map (elems t) xs)"
| "elems t Undefined = []"
| "elems t Null = []"
| "elems t (Boolean b) = []"
| "elems t (Number n) = []"
| "elems t (String s) = []"
| "elems t (Object ps) = []"

fun attrs_of :: "js \<Rightarrow> (string \<times> js) list" where
  "attrs_of (Element t ps cs) = ps"
| "attrs_of (Object ps) = ps"
| "attrs_of v = []"

fun children_of :: "js \<Rightarrow> js list" where
  "children_of (Element t ps cs) = cs"
| "children_of v = []"

section \<open>The landing page\<close>

text \<open>
  What the page imports from the framework and its libraries: the hooks \<open>useBaseUrl\<close>
  and \<open>useDocusaurusContext\<close>, the class-name helper \<open>clsx\<close> and the CSS module
  \<open>styles\<close>. They are parameters of the components. The context the hook returns is an
  object whose \<open>siteConfig\<close> property is an object or undefined (\<open>None\<close>), so the
  destructuring in \<open>Home\<close> never throws.
\<close>

record env =
  useBaseUrl :: "js \<Rightarrow> js"
  clsx :: "js list \<Rightarrow> js"
  styles :: "string \<Rightarrow> js"
  siteConfig :: "(string \<times> js) list option"

text \<open>JSX text is trimmed line by line and joined by single spaces.\<close>

definition frag :: "string \<Rightarrow> js" where
  "frag s = Element ''Fragment'' [] [String s]"

definition features :: "(string \<times> js) list list" where
  "features =
   [ [ (''title'', frag ''Vectors and matrices''),
       (''imageUrl'', String ''img/lego.svg''),
       (''description'', frag (''The fundamental building blocks of linear algebra: '' @
          ''heap or stack-allocated vectors and matrices parametrized by their dimensions.'')) ],
     [ (''title'', frag ''Decompositions and Lapack''),
       (''imageUrl'', String ''img/decomposition.svg''),
       (''description'', frag (''Compute matrix decompositions, and solutions to linear systems. '' @
          ''Benefit from efficient Rust implementations, or Lapack bindings.'')) ],
     [ (''title'', frag ''Points and transformations''),
       (''imageUrl'', String ''img/rotation.svg''),
       (''description'', frag (''Strongly typed geometric entities like points, rotation '' @
          ''matrices, quaternions, isometries, similarities, projections, etc.'')) ],
     [ (''title'', frag ''nalgebra-glm, for computer graphics''),
       (''imageUrl'', String ''img/logo_glm.svg''),
       (''description'', frag (''Use the nalgebra-glm crate for a simpler, straight-to-the-point, '' @
          ''graphics programming-oriented API. Inspired by the C++ GLM library.'')) ],
     [ (''title'', frag ''Wasm and Embedded programming''),
       (''imageUrl'', String ''img/cpu.svg''),
       (''description'', frag (''Use and compile nalgebra for browser applications or embedded targets '' @
          ''that do not support the Rust standard library.'')) ],
     [ (''title'', frag ''Forever free and Open-Source''),
       (''imageUrl'', String ''img/undraw_open_source.svg''),
       (''description'', frag (''Built with a FOSS mindset, we aim to empower the Rust and web communities '' @
          ''with an efficient linear algebra library.'')) ] ]"

definition Feature :: "env \<Rightarrow> (string \<times> js) list \<Rightarrow> js" where
  "Feature e props =
    (let imageUrl = get props ''imageUrl'';
         title = get props ''title'';
         description = get props ''description'';
         imgUrl = useBaseUrl e imageUrl
     in Element ''div'' [(''className'', clsx e [String ''col col--4'', styles e ''feature''])]
          [ js_and imgUrl
              (Element ''div'' [(''className'', String ''text--center'')]
                 [Element ''img'' [(''className'', styles e ''featureImage''),
                                   (''src'', imgUrl), (''alt'', title)] []]),
            Element ''h3'' [] [title],
            Element ''p'' [] [description] ])"

text \<open>
  \<open>Home\<close> reads the module constant \<open>features\<close>; \<open>Home_on\<close> is its body with that
  array as an argument.
\<close>

definition Home_on :: "env \<Rightarrow> (string \<times> js) list list \<Rightarrow> js" where
  "Home_on e fs =
    (let siteConfig = (case siteConfig e of None \<Rightarrow> [] | Some c \<Rightarrow> c)
     in Element ''Layout''
          [(''title'', String (ToString (get siteConfig ''title'') @ '' linear-algebra library'')),
           (''description'', String ''Fast and cross-platform linear-algebra library'')]
          [ Element ''header''
              [(''className'', clsx e [String ''hero hero--primary'', styles e ''heroBanner''])]
              [ Element ''div'' [(''className'', String ''container'')]
                  [ Element ''div'' [(''className'', String [])]
                      [ Element ''img'' [(''src'', String ''img/logo_nalgebra.svg''),
                                         (''width'', String ''60%''),
                                         (''alt'', String ''Project Logo'')] [] ],
                    Element ''p'' [(''className'', String ''hero__subtitle'')]
                      [get siteConfig ''tagline''],
                    Element ''div'' [(''className'', styles e ''buttons'')]
                      [ Element ''Link''
                          [(''className'',
                              clsx e [String ''button button--outline button--lg --ifm-color-prim force-border'',
                                      styles e ''getStarted'']),
                           (''to'', useBaseUrl e (String ''docs/user_guide/getting_started''))]
                          [String ''Get Started''] ] ] ],
            Element ''main'' []
              [ js_and (js_and (Array (map Object fs)) (Boolean (length fs > 0)))
                  (Element ''section'' [(''className'', styles e ''features'')]
                     [ Element ''div'' [(''className'', String ''container'')]
                         [ Element ''div'' [(''className'', String ''row'')]
                             [ Array (array_map
                                 (\<lambda>props idx.
                                    Element ''Feature'' (spread [(''key'', Number (int idx))] props) [])
                                 fs) ] ] ]) ] ])"

definition Home :: "env \<Rightarrow> js" where
  "Home e = Home_on e features"

text \<open>The second child of the page layout (the \<open>main\<close> element) and the first child of
  a feature's \<open>div\<close> (the place of the image container).\<close>

definition main_of :: "js \<Rightarrow> js" where
  "main_of page = (case children_of page of [header, m] \<Rightarrow> m | _ \<Rightarrow> Undefined)"

definition image_slot :: "js \<Rightarrow> js" where
  "image_slot v = (case children_of v of c # cs \<Rightarrow> c | [] \<Rightarrow> Undefined)"

section \<open>The site configuration\<close>

text \<open>
  The scalar fields of the exported configuration object, in source order. The nested
  \<open>themeConfig\<close>, \<open>plugins\<close>, \<open>presets\<close> and \<open>stylesheets\<close> entries are left out.
\<close>

definition docusaurus_config :: "(string \<times> js) list" where
  "docusaurus_config =
    [ (''title'', String ''nalgebra''),
      (''tagline'', String ''Linear algebra library for the Rust programming language.''),
      (''url'', String ''https://nalgebra.org''),
      (''baseUrl'', String ''/''),
      (''onBrokenLinks'', String ''error''),
      (''favicon'', String ''img/favicon.png''),
      (''organizationName'', String ''dimforge''),
      (''projectName'', String ''nalgebra'') ]"

text \<open>
  An environment to evaluate the components in. Its \<open>useBaseUrl\<close> does on a string what
  the hook does: an empty URL, an anchor, a URL with a protocol and a URL that already
  starts with \<open>baseUrl\<close> come back unchanged, any other gets \<open>baseUrl\<close> in front; a value
  that is not a string comes back as it is. Its \<open>clsx\<close> keeps non-empty strings and
  non-zero numbers, flattens arrays, takes from an object the keys that hold truthy
  values, drops everything else, and joins what is left with blanks. A CSS-module class
  keeps its name, and the context holds the configuration above.
\<close>

definition word_char :: "char \<Rightarrow> bool" where
  "word_char c = (c \<in> set ''abcdefghijklmnopqrstuvwxyzABCDEFGHIJKLMNOPQRSTUVWXYZ0123456789_'')"

definition has_protocol :: "string \<Rightarrow> bool" where
  "has_protocol url = (take 2 url = ''//'' \<or> take 1 (dropWhile word_char url) = '':'')"

definition add_base_url :: "string \<Rightarrow> string \<Rightarrow> string" where
  "add_base_url base url =
    (if url = [] \<or> take 1 url = ''#'' \<or> has_protocol url then url
     else if url = (if base \<noteq> [] \<and> last base = CHR ''/'' then butlast base else base) then base
     else if take (length base) url = base then url
     else base @ (if take 1 url = ''/'' then drop 1 url else url))"

fun class_names :: "js \<Rightarrow> string list" where
  "class_names (String s) = (if s = [] then [] else [s])"
| "class_names (Number n) = (if n = 0 then [] else [ToString (Number n)])"
| "class_names (Array xs) = concat (map class_names xs)"
| "class_names (Object ps) = map fst (filter (\<lambda>kv. truthy (snd kv)) ps)"
| "class_names Undefined = []"
| "class_names Null = []"
| "class_names (Boolean b) = []"
| "class_names (Element t ps cs) = []"

definition site_env :: env where
  "site_env =
    \<lparr> useBaseUrl = (\<lambda>v. case v of
                          String s \<Rightarrow> String (add_base_url (ToString (get docusaurus_config ''baseUrl'')) s)
                        | _ \<Rightarrow> v),
      clsx = (\<lambda>vs. String (join '' '' (concat (map class_names vs)))),
      styles = (\<lambda>k. String k),
      siteConfig = Some docusaurus_config \<rparr>"

section \<open>The documentation sidebar\<close>

text \<open>
  \<open>module.exports\<close> of \<open>sidebar_docs.js\<close>. The arrow at the end of a link label
  (U+21AA) is its three UTF-8 bytes.
\<close>

definition arrow :: string where
  "arrow = [CHR 0xE2, CHR 0x86, CHR 0xAA]"

definition sidebar_docs :: "(string \<times> js) list" where
  "sidebar_docs =
    [ (''docs'', Array
        [ String ''about_nalgebra'',
          Object [ (''User Guide'', Array
            [ String ''user_guide/getting_started'',
              String ''user_guide/vectors_and_matrices'',
              String ''user_guide/decompositions_and_lapack'',
              String ''user_guide/points_and_transformations'',
              String ''user_guide/projections'',
              String ''user_guide/cg_recipes'',
              String ''user_guide/nalgebra_glm'',
              String ''user_guide/performance_tricks'',
              String ''user_guide/wasm_and_embedded_targets'',
              String ''user_guide/generic_programming'' ]) ],
          Object [ (''API documentation'', Array
            [ Object [ (''type'', String ''link''),
                       (''label'', String (''nalgebra '' @ arrow)),
                       (''href'', String ''https://docs.rs/nalgebra'') ],
              Object [ (''type'', String ''link''),
                       (''label'', String (''nalgebra-glm '' @ arrow)),
                       (''href'', String ''https://docs.rs/nalgebra-glm'') ],
              Object [ (''type'', String ''link''),
                       (''label'', String (''nalgebra-lapack '' @ arrow)),
                       (''href'', String ''https://docs.rs/nalgebra-lapack'') ] ]) ],
          String ''faq'' ]) ]"

text \<open>The items of a sidebar tree: the array under its name, empty when there is none.\<close>

definition sidebar_items :: "(string \<times> js) list \<Rightarrow> string \<Rightarrow> js list" where
  "sidebar_items sidebars name = (case get sidebars name of Array xs \<Rightarrow> xs | _ \<Rightarrow> [])"

text \<open>
  The entries of the category with a given label among the items of a tree: the array
  that the first object with that key holds.
\<close>

fun category_items :: "string \<Rightarrow> js list \<Rightarrow> js list option" where
  "category_items label [] = None"
| "category_items label (Object ps # rest) =
     (case map_of ps label of Some (Array xs) \<Rightarrow> Some xs | _ \<Rightarrow> category_items label rest)"
| "category_items label (v # rest) = category_items label rest"

text \<open>An external link entry: an object of type \<open>link\<close> whose \<open>href\<close> starts with \<open>https://\<close>.\<close>

definition is_external_link :: "js \<Rightarrow> bool" where
  "is_external_link v =
    (case v of
       Object ps \<Rightarrow>
         get ps ''type'' = String ''link'' \<and>
         (case get ps ''href'' of String h \<Rightarrow> take 8 h = ''https://'' | _ \<Rightarrow> False)
     | _ \<Rightarrow> False)"

text \<open>
  The document identifiers an entry asks the framework to resolve to a page: a plain
  string is one; an object without a \<open>type\<close> is a category and asks for those of its
  entries; an object of type \<open>doc\<close> or \<open>ref\<close> asks for its \<open>id\<close>, one of any other type
  for those under its \<open>items\<close>. A link has none.
\<close>

fun doc_ids :: "js \<Rightarrow> string list" where
  "doc_ids (String s) = [s]"
| "doc_ids (Array xs) = concat (map doc_ids xs)"
| "doc_ids (Object ps) =
     (if map_of ps ''type'' = None then concat (map (\<lambda>kv. doc_ids (snd kv)) ps)
      else if get ps ''type'' = String ''doc'' \<or> get ps ''type'' = String ''ref''
           then (case get ps ''id'' of String s \<Rightarrow> [s] | _ \<Rightarrow> [])
      else concat (map (\<lambda>kv. if fst kv = ''items'' then doc_ids (snd kv) else []) ps))"
| "doc_ids Undefined = []"
| "doc_ids Null = []"
| "doc_ids (Boolean b) = []"
| "doc_ids (Number n) = []"
| "doc_ids (Element t ps cs) = []"

section \<open>The content pages\<close>

text \<open>
  The first lines of each Markdown or MDX page. The three pages of the user guide open
  with a front-matter block; the two Markdown files titled "Web assembly and embedded
  programming" open with a heading and the first line of their text.
\<close>

definition decompositions_and_lapack_mdx :: "string list" where
  "decompositions_and_lapack_mdx =
    [ ''---'',
      ''id: decompositions_and_lapack'',
      ''title: Decompositions and Lapack'',
      ''sidebar_label: Decompositions and Lapack'',
      ''---'',
      [] ]"

definition nalgebra_glm_mdx :: "string list" where
  "nalgebra_glm_mdx =
    [ ''---'',
      ''id: nalgebra_glm'',
      ''title: The nalgebra-glm crate'',
      ''sidebar_label: The nalgebra-glm crate'',
      ''---'',
      [] ]"

definition generic_programming_mdx :: "string list" where
  "generic_programming_mdx =
    [ ''---'',
      ''id: generic_programming'',
      ''title: Generic programming'',
      ''sidebar_label: Generic programming'',
      ''---'',
      [] ]"

definition wasm_and_embedded_md_1 :: "string list" where
  "wasm_and_embedded_md_1 =
    [ ''# Web assembly and embedded programming'',
      ''Linear algebra can of course be dramatically useful for browser applications'' ]"

definition wasm_and_embedded_md_2 :: "string list" where
  "wasm_and_embedded_md_2 =
    [ ''# Web assembly and embedded programming'',
      ''Linear algebra can of course be dramatically useful for browser applications'' ]"

text \<open>
  The front-matter of a page: the lines between a first line \<open>---\<close> and the next line
  \<open>---\<close>; none when the file does not start with that line or the block is not closed.
\<close>

fun front_matter :: "string list \<Rightarrow> string list option" where
  "front_matter [] = None"
| "front_matter (l # ls) =
     (if l = ''---'' \<and> ''---'' \<in> set ls then Some (takeWhile (\<lambda>x. x \<noteq> ''---'') ls) else None)"

text \<open>The fields a page declares: the text before the colon of each front-matter line that has one.\<close>

definition declared_fields :: "string list \<Rightarrow> string list" where
  "declared_fields page =
    (case front_matter page of
       None \<Rightarrow> []
     | Some ls \<Rightarrow> map (takeWhile (\<lambda>c. c \<noteq> CHR '':'')) (filter (\<lambda>l. CHR '':'' \<in> set l) ls))"

definition declares_id_title_label :: "string list \<Rightarrow> bool" where
  "declares_id_title_label page =
    (''id'' \<in> set (declared_fields page) \<and> ''title'' \<in> set (declared_fields page) \<and>
     ''sidebar_label'' \<in> set (declared_fields page))"

section \<open>The script that generates the API documentation\<close>

text \<open>
  A word of the script is a sequence of literal text and variable references; a command
  is an assignment or a simple command. The script has no quoting that matters, and no
  value holds a blank, so a word expands to one field.
\<close>

datatype part = Lit string | Var string

datatype command = Assign string "part list" | Simple "part list list"

text \<open>
  The state of the shell: its variables, the working directory and the previous one
  (paths as the script writes them, relative to the directory it starts in), the lines
  printed, and the external commands run so far, each with the directory it ran in.
\<close>

record shell =
  vars :: "(string \<times> string) list"
  cwd :: string
  oldpwd :: string
  printed :: "string list"
  ran :: "(string \<times> string list) list"

definition expand :: "(string \<times> string) list \<Rightarrow> part list \<Rightarrow> string" where
  "expand vs w =
    concat (map (\<lambda>p. case p of Lit s \<Rightarrow> s
                          | Var v \<Rightarrow> (case map_of vs v of None \<Rightarrow> [] | Some x \<Rightarrow> x)) w)"

definition resolve :: "string \<Rightarrow> string \<Rightarrow> string" where
  "resolve dir target =
    (if take 1 target = ''/'' then target
     else if dir = ''.'' then target
     else dir @ ''/'' @ target)"

text \<open>
  One command. \<open>cd\<close> changes directory when the target exists and leaves the shell where
  it is otherwise; \<open>cd -\<close> goes back to the previous directory and prints it, and \<open>cd\<close>
  alone goes to \<open>$HOME\<close>. The script
  does not stop at a failing command, so every command after it still runs.
\<close>

definition exec :: "(string \<Rightarrow> bool) \<Rightarrow> shell \<Rightarrow> command \<Rightarrow> shell" where
  "exec dir_exists st c =
    (case c of
       Assign v w \<Rightarrow> st\<lparr>vars := AList.update v (expand (vars st) w) (vars st)\<rparr>
     | Simple ws \<Rightarrow>
        (case map (expand (vars st)) ws of
           [] \<Rightarrow> st
         | name # args \<Rightarrow>
            if name = ''cd'' then
              (let back = (take 1 args = [''-'']);
                   target = (case args of
                               [] \<Rightarrow> expand (vars st) [Var ''HOME'']
                             | a # _ \<Rightarrow> if a = ''-'' then oldpwd st else resolve (cwd st) a)
               in if dir_exists target
                  then st\<lparr>cwd := target, oldpwd := cwd st,
                          printed := (if back then printed st @ [target] else printed st)\<rparr>
                  else st)
            else if name = ''echo'' then st\<lparr>printed := printed st @ [join '' '' args]\<rparr>
            else st\<lparr>ran := ran st @ [(cwd st, name # args)]\<rparr>))"

definition generate_docs :: "command list" where
  "generate_docs =
    [ Assign ''out_dir'' [Lit ''./docs/rustdoc''],
      Assign ''nalgebra_dir'' [Lit ''../nalgebra''],
      Simple [[Lit ''echo''], [Lit ''Generating the documentation...'']],
      Simple [[Lit ''cd''], [Var ''nalgebra_dir'']],
      Simple [[Lit ''rm''], [Lit ''-r''], [Lit ''target/doc'']],
      Simple [[Lit ''cargo''], [Lit ''doc''], [Lit ''-p''], [Lit ''nalgebra''],
              [Lit ''--no-deps''], [Lit ''--all-features'']],
      Simple [[Lit ''cd''], [Lit ''-'']],
      Simple [[Lit ''rm''], [Lit ''-rf''], [Lit ''docs/rustdoc'']],
      Simple [[Lit ''cp''], [Lit ''-r''], [Var ''nalgebra_dir'', Lit ''/target/doc''], [Var ''out_dir'']],
      Simple [[Lit ''echo''], [Lit ''... documentation for nalgebra generated!'']],
      Simple [[Lit ''./fix_rustdoc.sh''], [Lit ''rustdoc''], [Lit ''rustdoc_nalgebra'']],
      Simple [[Lit ''echo''], [Lit ''Generating the documentation...'']],
      Assign ''out_dir'' [Lit ''./docs/rustdoc_glm''],
      Simple [[Lit ''cd''], [Var ''nalgebra_dir'']],
      Simple [[Lit ''rm''], [Lit ''-r''], [Lit ''target/doc'']],
      Simple [[Lit ''cargo''], [Lit ''doc''], [Lit ''-p''], [Lit ''nalgebra-glm''],
              [Lit ''--no-deps''], [Lit ''--all-features'']],
      Simple [[Lit ''cd''], [Lit ''-'']],
      Simple [[Lit ''rm''], [Lit ''-rf''], [Lit ''docs/rustdoc_glm'']],
      Simple [[Lit ''cp''], [Lit ''-r''], [Var ''nalgebra_dir'', Lit ''/target/doc''], [Var ''out_dir'']],
      Simple [[Lit ''echo''], [Lit ''... documentation for nalgebra-glm generated!'']],
      Simple [[Lit ''./fix_rustdoc.sh''], [Lit ''rustdoc_glm''], [Lit ''rustdoc_nalgebra_glm'']] ]"

definition start :: shell where
  "start = \<lparr> vars = [], cwd = ''.'', oldpwd = ''.'', printed = [], ran = [] \<rparr>"

definition run :: "(string \<Rightarrow> bool) \<Rightarrow> command list \<Rightarrow> shell" where
  "run dir_exists script = foldl (exec dir_exists) start script"

section \<open>Helper lemmas\<close>

lemma elems_falsy: "\<not> truthy v \<Longrightarrow> elems t v = []"
  by (cases v) auto

lemma array_map_Nil: "array_map f [] = []"
  by (simp add: array_map_def)

lemma length_array_map: "length (array_map f xs) = length xs"
  by (simp add: array_map_def)

lemma nth_array_map: "i < length xs \<Longrightarrow> array_map f xs ! i = f (xs ! i) i"
  by (simp add: array_map_def)

lemma elems_map_feature:
  "concat (map (elems t) (array_map (\<lambda>props idx. Element ''Feature'' (f props idx) []) fs)) =
    (if t = ''Feature'' then array_map (\<lambda>props idx. Element ''Feature'' (f props idx) []) fs else [])"
  unfolding array_map_def
  by (induction fs rule: rev_induct) auto

lemma main_Home_on:
  "main_of (Home_on e fs) =
    Element ''main'' []
      [ js_and (js_and (Array (map Object fs)) (Boolean (length fs > 0)))
          (Element ''section'' [(''className'', styles e ''features'')]
             [ Element ''div'' [(''className'', String ''container'')]
                 [ Element ''div'' [(''className'', String ''row'')]
                     [ Array (array_map
                         (\<lambda>props idx.
                            Element ''Feature'' (spread [(''key'', Number (int idx))] props) [])
                         fs) ] ] ]) ]"
  by (simp add: Home_on_def main_of_def Let_def)

lemma elems_section:
  "elems ''section'' (main_of (Home_on e fs)) =
    (if fs = [] then []
     else [Element ''section'' [(''className'', styles e ''features'')]
             [ Element ''div'' [(''className'', String ''container'')]
                 [ Element ''div'' [(''className'', String ''row'')]
                     [ Array (array_map
                         (\<lambda>props idx.
                            Element ''Feature'' (spread [(''key'', Number (int idx))] props) [])
                         fs) ] ] ]])"
  by (simp add: main_Home_on js_and_def elems_map_feature)

lemma elems_Feature:
  "elems ''Feature'' (main_of (Home_on e fs)) =
    array_map (\<lambda>props idx. Element ''Feature'' (spread [(''key'', Number (int idx))] props) []) fs"
  by (simp add: main_Home_on js_and_def elems_map_feature array_map_Nil)

lemma map_of_update_foldl:
  "distinct (map fst ps) \<Longrightarrow>
   map_of (foldl (\<lambda>acc kv. AList.update (fst kv) (snd kv) acc) base ps) k =
     (case map_of ps k of Some v \<Rightarrow> Some v | None \<Rightarrow> map_of base k)"
proof (induction ps arbitrary: base)
  case Nil
  then show ?case by simp
next
  case (Cons p ps)
  obtain a b where p: "p = (a, b)" by (cases p)
  from Cons.prems p have fresh: "map_of ps a = None" and d: "distinct (map fst ps)"
    by (simp_all add: map_of_eq_None_iff)
  show ?case
  proof (cases "k = a")
    case True
    with fresh show ?thesis
      using Cons.IH [OF d, of "AList.update a b base"]
      by (simp add: p AList.update_conv' split: option.splits)
  next
    case False
    then show ?thesis
      using Cons.IH [OF d, of "AList.update a b base"]
      by (simp add: p AList.update_conv' split: option.splits)
  qed
qed

lemma get_spread:
  "distinct (map fst ps) \<Longrightarrow>
   get (spread base ps) k = (case map_of ps k of Some v \<Rightarrow> v | None \<Rightarrow> get base k)"
  by (simp add: get_def spread_def map_of_update_foldl split: option.splits)

lemma map_of_filter_key: "P k \<Longrightarrow> map_of (filter (\<lambda>kv. P (fst kv)) ps) k = map_of ps k"
  by (induction ps) auto

lemma get_component_props:
  "k \<noteq> ''key'' \<Longrightarrow> k \<noteq> ''ref'' \<Longrightarrow> get (component_props attrs) k = get attrs k"
  using map_of_filter_key [of "\<lambda>k. k \<noteq> ''key'' \<and> k \<noteq> ''ref''" k attrs]
  by (simp add: get_def component_props_def)

text \<open>
  For any array of descriptors (objects, so with distinct keys), the element that
  \<open>Home\<close> creates for the descriptor at index \<open>i\<close> hands \<open>Feature\<close> that descriptor's
  value under every key other than the reserved ones.
\<close>

lemma Home_on_passes_fields:
  assumes "i < length fs" and "distinct (map fst (fs ! i))" and "k \<noteq> ''key''" and "k \<noteq> ''ref''"
  shows "get (component_props (attrs_of (elems ''Feature'' (main_of (Home_on e fs)) ! i))) k = get (fs ! i) k"
proof -
  have "elems ''Feature'' (main_of (Home_on e fs)) ! i =
        Element ''Feature'' (spread [(''key'', Number (int i))] (fs ! i)) []"
    using assms(1) by (simp add: elems_Feature nth_array_map)
  then show ?thesis
    using assms(2-4)
    by (simp add: get_component_props get_spread) (simp add: get_def split: option.splits)
qed

lemma features_keep_props:
  "\<forall>i<length features.
     component_props (spread [(''key'', Number (int i))] (features ! i)) = features ! i \<and>
     get (spread [(''key'', Number (int i))] (features ! i)) ''key'' = Number (int i)"
  by (simp add: features_def All_less_Suc spread_def component_props_def get_def)

lemma length_features: "length features = 6"
  by (simp add: features_def)

section \<open>The landing page: claims\<close>

text \<open>
  Claim C4, as amended. Every element of the feature descriptor list is an object with
  exactly the fields \<open>title\<close>, \<open>imageUrl\<close> and \<open>description\<close> (the image field is named
  \<open>imageUrl\<close>, not \<open>image\<close>), and \<open>Home\<close> consumes the list once: the Feature elements of
  the grid are the list mapped, descriptor by descriptor, to one element each.
\<close>

theorem features_fields_and_use:
  "(\<forall>d\<in>set features. map fst d = [''title'', ''imageUrl'', ''description'']) \<and>
   elems ''Feature'' (main_of (Home e)) =
     array_map (\<lambda>props idx. Element ''Feature'' (spread [(''key'', Number (int idx))] props) [])
       features"
proof
  show "\<forall>d\<in>set features. map fst d = [''title'', ''imageUrl'', ''description'']"
    by (simp add: features_def)
  show "elems ''Feature'' (main_of (Home e)) =
     array_map (\<lambda>props idx. Element ''Feature'' (spread [(''key'', Number (int idx))] props) [])
       features"
    by (simp add: Home_def elems_Feature)
qed

theorem features_fields_and_use_witness:
  "features ! 0 \<in> set features \<and>
   map fst (features ! 0) = [''title'', ''imageUrl'', ''description''] \<and>
   length (elems ''Feature'' (main_of (Home site_env))) = 6"
proof -
  have m: "features ! 0 \<in> set features"
    by (simp add: features_def)
  from features_fields_and_use [of site_env] m
  show ?thesis
    by (simp add: length_array_map length_features)
qed

text \<open>
  Counterexample to claim C4 as stated: the fields of the first descriptor are not
  \<open>title\<close>, \<open>image\<close> and \<open>description\<close>; it has no field \<open>image\<close>.
\<close>

theorem features_no_image_field:
  "set (map fst (features ! 0)) \<noteq> {''title'', ''image'', ''description''} \<and>
   get (features ! 0) ''image'' = Undefined"
proof -
  have "''image'' \<notin> set (map fst (features ! 0))"
    by (simp add: features_def)
  then have "set (map fst (features ! 0)) \<noteq> {''title'', ''image'', ''description''}"
    by auto
  moreover have "get (features ! 0) ''image'' = Undefined"
    by (simp add: features_def get_def)
  ultimately show ?thesis
    by simp
qed

text \<open>
  Claim C6. \<open>Home\<close> and \<open>Feature\<close> are functions of their inputs alone, and \<open>Home\<close> maps
  the literal descriptor array to Feature elements in array order: there are as many
  elements as descriptors, and for every index \<open>i\<close> the \<open>i\<close>-th element has key \<open>i\<close> and
  hands the component exactly the \<open>i\<close>-th descriptor, unchanged (so its \<open>title\<close>,
  \<open>imageUrl\<close> and \<open>description\<close>, and nothing else).
\<close>

theorem Home_passes_descriptors:
  "length (elems ''Feature'' (main_of (Home e))) = length features \<and>
   (\<forall>i<length features.
      component_props (attrs_of (elems ''Feature'' (main_of (Home e)) ! i)) = features ! i \<and>
      get (attrs_of (elems ''Feature'' (main_of (Home e)) ! i)) ''key'' = Number (int i) \<and>
      children_of (elems ''Feature'' (main_of (Home e)) ! i) = [])"
  using features_keep_props
  by (simp add: Home_def elems_Feature length_array_map nth_array_map)

theorem Home_passes_descriptors_witness:
  "(1::nat) < length features \<and>
   component_props (attrs_of (elems ''Feature'' (main_of (Home site_env)) ! 1)) =
     [ (''title'', frag ''Decompositions and Lapack''),
       (''imageUrl'', String ''img/decomposition.svg''),
       (''description'', frag (''Compute matrix decompositions, and solutions to linear systems. '' @
          ''Benefit from efficient Rust implementations, or Lapack bindings.'')) ]"
proof -
  have l: "(1::nat) < length features"
    by (simp add: length_features)
  have "features ! 1 =
     [ (''title'', frag ''Decompositions and Lapack''),
       (''imageUrl'', String ''img/decomposition.svg''),
       (''description'', frag (''Compute matrix decompositions, and solutions to linear systems. '' @
          ''Benefit from efficient Rust implementations, or Lapack bindings.'')) ]"
    by (simp add: features_def)
  with l Home_passes_descriptors [of site_env] show ?thesis
    by simp
qed

text \<open>
  Claim C8. \<open>Home\<close> renders the feature-grid section exactly when the features array is
  not empty; the array is a literal of six descriptors, so every render of \<open>Home\<close> has
  the one section under \<open>main\<close>, and it holds exactly six Feature elements.
\<close>

theorem Home_grid_section:
  "(elems ''section'' (main_of (Home_on e fs)) \<noteq> [] \<longleftrightarrow> fs \<noteq> []) \<and>
   length features = 6 \<and>
   (\<exists>sec. elems ''section'' (main_of (Home e)) = [sec] \<and> length (elems ''Feature'' sec) = 6)"
proof -
  have ne: "features \<noteq> []"
    using length_features by auto
  have "\<exists>sec. elems ''section'' (main_of (Home e)) = [sec] \<and> length (elems ''Feature'' sec) = 6"
    using ne by (simp add: Home_def elems_section elems_map_feature length_array_map length_features)
  then show ?thesis
    by (simp add: elems_section length_features)
qed

theorem Home_grid_section_witness:
  "elems ''section'' (main_of (Home_on site_env [])) = [] \<and>
   length (elems ''section'' (main_of (Home site_env))) = 1"
proof -
  from Home_grid_section [of site_env "[]"] have "elems ''section'' (main_of (Home_on site_env [])) = []"
    by simp
  moreover from Home_grid_section [of site_env "[]"]
  have "length (elems ''section'' (main_of (Home site_env))) = 1"
    by auto
  ultimately show ?thesis
    by simp
qed

text \<open>
  Claim C9, as amended. For every props, \<open>Feature\<close> renders the image container and its
  \<open>img\<close> only when the URL that \<open>useBaseUrl\<close> returns is truthy, and the \<open>img\<close> it
  creates has that URL as its \<open>src\<close>, so neither empty nor missing. Nothing else in its
  output is an \<open>img\<close> of its own: for every tag, the elements of the output are the
  outer \<open>div\<close>, those in the place of the image container, the \<open>h3\<close> and the \<open>p\<close>, and
  those inside the \<open>title\<close> and the \<open>description\<close> it was given, which pass through
  unchanged.
\<close>

theorem Feature_own_img:
  "(\<forall>t. elems t (Feature e props) =
      (if t = ''div'' then [Feature e props] else []) @
      elems t (image_slot (Feature e props)) @
      (if t = ''h3'' then [Element ''h3'' [] [get props ''title'']] else []) @
      elems t (get props ''title'') @
      (if t = ''p'' then [Element ''p'' [] [get props ''description'']] else []) @
      elems t (get props ''description'')) \<and>
   (\<not> truthy (useBaseUrl e (get props ''imageUrl'')) \<longrightarrow>
      (\<forall>t. elems t (image_slot (Feature e props)) = [])) \<and>
   (truthy (useBaseUrl e (get props ''imageUrl'')) \<longrightarrow>
      elems ''img'' (image_slot (Feature e props)) =
        [Element ''img'' [(''className'', styles e ''featureImage''),
                          (''src'', useBaseUrl e (get props ''imageUrl'')),
                          (''alt'', get props ''title'')] []] \<and>
      elems ''div'' (image_slot (Feature e props)) =
        [Element ''div'' [(''className'', String ''text--center'')]
           [Element ''img'' [(''className'', styles e ''featureImage''),
                             (''src'', useBaseUrl e (get props ''imageUrl'')),
                             (''alt'', get props ''title'')] []]]) \<and>
   (\<forall>i\<in>set (elems ''img'' (image_slot (Feature e props))).
      get (attrs_of i) ''src'' = useBaseUrl e (get props ''imageUrl'') \<and>
      truthy (get (attrs_of i) ''src'') \<and>
      get (attrs_of i) ''src'' \<noteq> String [] \<and>
      get (attrs_of i) ''src'' \<noteq> Undefined \<and>
      get (attrs_of i) ''src'' \<noteq> Null)"
proof -
  have slot: "image_slot (Feature e props) =
      js_and (useBaseUrl e (get props ''imageUrl''))
        (Element ''div'' [(''className'', String ''text--center'')]
           [Element ''img'' [(''className'', styles e ''featureImage''),
                             (''src'', useBaseUrl e (get props ''imageUrl'')),
                             (''alt'', get props ''title'')] []])"
    by (simp add: Feature_def image_slot_def Let_def)
  have whole: "\<forall>t. elems t (Feature e props) =
      (if t = ''div'' then [Feature e props] else []) @
      elems t (image_slot (Feature e props)) @
      (if t = ''h3'' then [Element ''h3'' [] [get props ''title'']] else []) @
      elems t (get props ''title'') @
      (if t = ''p'' then [Element ''p'' [] [get props ''description'']] else []) @
      elems t (get props ''description'')"
    by (simp add: Feature_def image_slot_def Let_def)
  show ?thesis
  proof (cases "truthy (useBaseUrl e (get props ''imageUrl''))")
    case True
    have "elems ''img'' (image_slot (Feature e props)) =
        [Element ''img'' [(''className'', styles e ''featureImage''),
                          (''src'', useBaseUrl e (get props ''imageUrl'')),
                          (''alt'', get props ''title'')] []]"
      using True by (simp add: slot js_and_def)
    moreover have "elems ''div'' (image_slot (Feature e props)) =
        [Element ''div'' [(''className'', String ''text--center'')]
           [Element ''img'' [(''className'', styles e ''featureImage''),
                             (''src'', useBaseUrl e (get props ''imageUrl'')),
                             (''alt'', get props ''title'')] []]]"
      using True by (simp add: slot js_and_def)
    ultimately show ?thesis
      using True whole by (auto simp: get_def)
  next
    case False
    then have "\<forall>t. elems t (image_slot (Feature e props)) = []"
      by (simp add: slot js_and_def elems_falsy)
    with False whole show ?thesis
      by simp
  qed
qed

theorem Feature_own_img_witness:
  "\<not> truthy (useBaseUrl site_env (get [] ''imageUrl'')) \<and>
   elems ''img'' (Feature site_env []) = [] \<and>
   truthy (useBaseUrl site_env (get (features ! 0) ''imageUrl'')) \<and>
   map (\<lambda>i. get (attrs_of i) ''src'') (elems ''img'' (Feature site_env (features ! 0))) =
     [String ''/img/lego.svg'']"
proof -
  have f: "\<not> truthy (useBaseUrl site_env (get [] ''imageUrl''))"
    by (simp add: site_env_def get_def)
  have "elems ''img'' (Feature site_env []) =
      elems ''img'' (image_slot (Feature site_env [])) @
      elems ''img'' (get [] ''title'') @ elems ''img'' (get [] ''description'')"
    using Feature_own_img [of site_env "[]"] by simp
  moreover have "elems ''img'' (image_slot (Feature site_env [])) = []"
    using f Feature_own_img [of site_env "[]"] by simp
  ultimately have none: "elems ''img'' (Feature site_env []) = []"
    by (simp add: get_def)
  have u: "useBaseUrl site_env (get (features ! 0) ''imageUrl'') = String ''/img/lego.svg''"
    by (simp add: site_env_def features_def get_def docusaurus_config_def add_base_url_def
        has_protocol_def word_char_def)
  have td: "elems ''img'' (get (features ! 0) ''title'') = [] \<and>
            elems ''img'' (get (features ! 0) ''description'') = []"
    by (simp add: features_def get_def frag_def)
  have "elems ''img'' (Feature site_env (features ! 0)) =
      elems ''img'' (image_slot (Feature site_env (features ! 0))) @
      elems ''img'' (get (features ! 0) ''title'') @
      elems ''img'' (get (features ! 0) ''description'')"
    using Feature_own_img [of site_env "features ! 0"] by simp
  moreover have "elems ''img'' (image_slot (Feature site_env (features ! 0))) =
      [Element ''img'' [(''className'', styles site_env ''featureImage''),
                        (''src'', String ''/img/lego.svg''),
                        (''alt'', get (features ! 0) ''title'')] []]"
    using u Feature_own_img [of site_env "features ! 0"] by simp
  ultimately have "map (\<lambda>i. get (attrs_of i) ''src'') (elems ''img'' (Feature site_env (features ! 0))) =
     [String ''/img/lego.svg'']"
    using td by (simp add: get_def)
  with f none u show ?thesis
    by simp
qed

text \<open>
  Counterexample to claim C9 as stated: given a title that is an \<open>img\<close> element without
  a \<open>src\<close>, the output of \<open>Feature\<close> holds, after its own \<open>img\<close>, an \<open>img\<close> whose \<open>src\<close>
  is missing.
\<close>

theorem Feature_passes_img_through:
  "map (\<lambda>i. get (attrs_of i) ''src'')
     (elems ''img'' (Feature site_env [ (''title'', Element ''img'' [] []),
                                        (''imageUrl'', String ''img/lego.svg''),
                                        (''description'', frag ''Vectors and matrices'') ])) =
   [String ''/img/lego.svg'', Undefined]"
  by (simp add: Feature_def Let_def js_and_def get_def frag_def site_env_def docusaurus_config_def
      add_base_url_def has_protocol_def word_char_def)

section \<open>The sidebar, the content pages and the script: claims\<close>

text \<open>
  Claim C10. The docs sidebar tree has an "API documentation" category; it has three
  entries, and each is an external link object (type \<open>link\<close>, an \<open>https\<close> href) that asks
  for no local documentation page.
\<close>

theorem api_documentation_links:
  "\<exists>items. category_items ''API documentation'' (sidebar_items sidebar_docs ''docs'') = Some items \<and>
     length items = 3 \<and>
     (\<forall>x\<in>set items. is_external_link x \<and> doc_ids x = [])"
  by (simp add: sidebar_items_def sidebar_docs_def get_def is_external_link_def)

theorem api_documentation_links_witness:
  "category_items ''API documentation'' (sidebar_items sidebar_docs ''docs'') \<noteq> None \<and>
   list_all is_external_link
     (case category_items ''API documentation'' (sidebar_items sidebar_docs ''docs'') of
        Some items \<Rightarrow> items | None \<Rightarrow> [])"
  using api_documentation_links
  by (auto simp: list_all_iff)

text \<open>
  Claim C2, as amended. The three user-guide pages (decompositions and Lapack,
  nalgebra-glm, generic programming) declare front-matter with an \<open>id\<close>, a \<open>title\<close> and a
  \<open>sidebar_label\<close> at the top of the file; the two Markdown files titled "Web assembly
  and embedded programming" declare no front-matter: their first line is the heading.
\<close>

theorem pages_front_matter:
  "declares_id_title_label decompositions_and_lapack_mdx \<and>
   declares_id_title_label nalgebra_glm_mdx \<and>
   declares_id_title_label generic_programming_mdx \<and>
   front_matter wasm_and_embedded_md_1 = None \<and>
   front_matter wasm_and_embedded_md_2 = None \<and>
   take 1 wasm_and_embedded_md_1 = [''# Web assembly and embedded programming''] \<and>
   take 1 wasm_and_embedded_md_2 = [''# Web assembly and embedded programming'']"
  by (simp add: declares_id_title_label_def declared_fields_def
      decompositions_and_lapack_mdx_def nalgebra_glm_mdx_def generic_programming_mdx_def
      wasm_and_embedded_md_1_def wasm_and_embedded_md_2_def)

text \<open>
  Counterexample to claim C2 as stated: a Markdown content file that declares no
  \<open>id\<close>, \<open>title\<close> or \<open>sidebar_label\<close>.
\<close>

theorem page_without_front_matter:
  "\<not> declares_id_title_label wasm_and_embedded_md_1"
  by (simp add: declares_id_title_label_def declared_fields_def wasm_and_embedded_md_1_def)

text \<open>
  Claim C7. When the sibling checkout \<open>../nalgebra\<close> exists, the script runs, for
  \<open>nalgebra\<close> and then for \<open>nalgebra-glm\<close>: \<open>cargo doc\<close> for the package inside the
  checkout; back in the site's directory, the removal of the previous output directory
  under \<open>docs\<close>; and the copy of the checkout's \<open>target/doc\<close> into that directory.
\<close>

theorem generate_docs_commands:
  assumes "dir_exists ''../nalgebra''" and "dir_exists ''.''"
  shows "ran (run dir_exists generate_docs) =
    [ (''../nalgebra'', [''rm'', ''-r'', ''target/doc'']),
      (''../nalgebra'', [''cargo'', ''doc'', ''-p'', ''nalgebra'', ''--no-deps'', ''--all-features'']),
      (''.'', [''rm'', ''-rf'', ''docs/rustdoc'']),
      (''.'', [''cp'', ''-r'', ''../nalgebra/target/doc'', ''./docs/rustdoc'']),
      (''.'', [''./fix_rustdoc.sh'', ''rustdoc'', ''rustdoc_nalgebra'']),
      (''../nalgebra'', [''rm'', ''-r'', ''target/doc'']),
      (''../nalgebra'', [''cargo'', ''doc'', ''-p'', ''nalgebra-glm'', ''--no-deps'', ''--all-features'']),
      (''.'', [''rm'', ''-rf'', ''docs/rustdoc_glm'']),
      (''.'', [''cp'', ''-r'', ''../nalgebra/target/doc'', ''./docs/rustdoc_glm'']),
      (''.'', [''./fix_rustdoc.sh'', ''rustdoc_glm'', ''rustdoc_nalgebra_glm'']) ]"
  using assms
  by (simp add: run_def generate_docs_def start_def exec_def expand_def resolve_def Let_def)

theorem generate_docs_commands_witness:
  "map fst (ran (run (\<lambda>d. d = ''.'' \<or> d = ''../nalgebra'') generate_docs)) =
     [''../nalgebra'', ''../nalgebra'', ''.'', ''.'', ''.'', ''../nalgebra'', ''../nalgebra'', ''.'', ''.'', ''.'']"
  using generate_docs_commands [of "\<lambda>d. d = ''.'' \<or> d = ''../nalgebra''"]
  by simp

end
